theory Spec2Isabelle
  imports Complex_Main
begin

section \<open>Values of the script\<close>

text \<open>
  The script \<^verbatim>\<open>dnstest.py\<close> times DNS lookups and summarises the timings. Its
  numbers are Python and NumPy floats. They are idealised here as real numbers:
  rounding, overflow and the infinities are outside the model, except for the mean of
  line 67, which is given a second time with binary64 rounding. The one special float
  the script can really produce, not-a-number, is kept as a value of its own, since
  NumPy and SciPy return it instead of raising.
\<close>

datatype py_error = ZeroDivisionError | ValueError

datatype npfloat = NaN | Fin real

text \<open>
  One call of \<^verbatim>\<open>resolver.resolve(domain)\<close> between two readings of
  \<^verbatim>\<open>time.time()\<close>: either an answer arrives (the two clock readings, in
  seconds), or the call raises.
\<close>

datatype attempt = Resolved real real | Raised

text \<open>
  The network is a stream of attempts: \<open>net k\<close> is what happens at the \<open>k\<close>-th lookup
  the process issues. Every function that performs lookups takes the index of the next
  lookup and returns the index after its last one.
\<close>

type_synonym network = "nat \<Rightarrow> attempt"

text \<open>
  The quantile function of Student's t distribution belongs to SciPy, not to the
  script: \<open>ppf q df\<close> stands for the standardised \<^verbatim>\<open>t._ppf(q, df)\<close> and is a
  parameter of everything that builds a confidence interval.
\<close>

type_synonym quantile = "real \<Rightarrow> real \<Rightarrow> real"

text \<open>
  What \<^verbatim>\<open>test_dns\<close> returns: the three-element tuple
  \<^verbatim>\<open>None, None, None\<close> of line 65, or the four-element tuple
  \<^verbatim>\<open>avg_time, min_time, max_time, confidence_interval\<close> of line 75.
\<close>

datatype dns_tuple =
    Tuple3
  | Tuple4 real real real "npfloat \<times> npfloat"

text \<open>The local variables of the statistics block (lines 67 to 73, and 92 to 97).\<close>

record summary =
  avg_time :: real
  min_time :: real
  max_time :: real
  std_dev :: npfloat
  std_err :: npfloat
  confidence_interval :: "npfloat \<times> npfloat"

section \<open>Library functions the script calls\<close>

text \<open>Python's \<^verbatim>\<open>min\<close> and \<^verbatim>\<open>max\<close> raise ValueError on an empty list.\<close>

fun py_min :: "real list \<Rightarrow> py_error + real" where
  "py_min [] = Inl ValueError"
| "py_min (x # xs) = Inr (fold min xs x)"

fun py_max :: "real list \<Rightarrow> py_error + real" where
  "py_max [] = Inl ValueError"
| "py_max (x # xs) = Inr (fold max xs x)"

text \<open>
  \<^verbatim>\<open>np.std(a, ddof=1)\<close>: the mean is taken over \<open>len(a)\<close>, the squared deviations
  are summed and divided by \<open>max(len(a) - 1, 0)\<close>. With fewer than two elements that is
  \<open>0/0\<close> (or the mean of nothing), which NumPy returns as nan with a warning.
\<close>

definition np_std_ddof1 :: "real list \<Rightarrow> npfloat" where
  "np_std_ddof1 a =
     (let n = length a in
      if n \<le> 1 then NaN
      else Fin (sqrt (sum_list (map (\<lambda>x. (x - sum_list a / real n)\<^sup>2) a) / real (n - 1))))"

text \<open>\<^verbatim>\<open>np.sqrt\<close> of a negative number is nan.\<close>

definition np_sqrt :: "real \<Rightarrow> npfloat" where
  "np_sqrt x = (if x < 0 then NaN else Fin (sqrt x))"

text \<open>
  Division of NumPy floats never raises. A nan operand gives nan, and so does \<open>0/0\<close>.
  A non-zero number over zero is an infinity, which this model does not have: the
  script only divides by \<open>sqrt N\<close> after \<open>N = 0\<close> has already raised, so the case
  is never reached and is mapped to nan.
\<close>

fun np_div :: "npfloat \<Rightarrow> npfloat \<Rightarrow> npfloat" where
  "np_div (Fin a) (Fin b) = (if b = 0 then NaN else Fin (a / b))"
| "np_div _ _ = NaN"

text \<open>
  \<^verbatim>\<open>stats.t.interval(confidence, df, loc=loc, scale=scale)\<close> is the pair
  \<^verbatim>\<open>(ppf(q1), ppf(q2))\<close> with \<open>q1 = (1 - confidence)/2\<close> and
  \<open>q2 = (1 + confidence)/2\<close>, and \<^verbatim>\<open>ppf(q)\<close> is
  \<^verbatim>\<open>_ppf(q, df) * scale + loc\<close> where the arguments are valid: \<open>df > 0\<close>,
  \<open>scale > 0\<close> and \<open>loc\<close> a number. Where they are not, SciPy returns nan for both
  ends; a nan scale fails the test \<open>scale > 0\<close>.
\<close>

definition t_interval :: "quantile \<Rightarrow> real \<Rightarrow> real \<Rightarrow> real \<Rightarrow> npfloat \<Rightarrow> npfloat \<times> npfloat" where
  "t_interval ppf confidence df loc scale =
     (let q1 = (1 - confidence) / 2; q2 = (1 + confidence) / 2 in
      case scale of
        NaN \<Rightarrow> (NaN, NaN)
      | Fin s \<Rightarrow>
          if 0 < df \<and> 0 < s then (Fin (ppf q1 df * s + loc), Fin (ppf q2 df * s + loc))
          else (NaN, NaN))"

section \<open>The statistics block\<close>

text \<open>
  Lines 67 to 73 of \<^verbatim>\<open>test_dns\<close>, with \<open>n = num_measurements\<close>, and lines 92
  to 97 of \<^verbatim>\<open>test_domains\<close>, with \<open>n = len(overall_times)\<close>: the same statements
  in the same order. The division of line 67 (92) comes first and raises
  ZeroDivisionError for \<open>n = 0\<close>; \<^verbatim>\<open>min\<close> then raises ValueError on an empty list.
\<close>

definition aggregate :: "quantile \<Rightarrow> real list \<Rightarrow> int \<Rightarrow> py_error + summary" where
  "aggregate ppf samples n =
     (if n = 0 then Inl ZeroDivisionError
      else
        let avg = sum_list samples / real_of_int n in
        case py_min samples of
          Inl e \<Rightarrow> Inl e
        | Inr mn \<Rightarrow>
            (case py_max samples of
               Inl e \<Rightarrow> Inl e
             | Inr mx \<Rightarrow>
                 let sd = np_std_ddof1 samples;
                     se = np_div sd (np_sqrt (real_of_int n));
                     ci = t_interval ppf (95 / 100) (real_of_int (n - 1)) avg se
                 in Inr \<lparr>avg_time = avg, min_time = mn, max_time = mx,
                          std_dev = sd, std_err = se, confidence_interval = ci\<rparr>))"

section \<open>The sampler: \<^verbatim>\<open>test_dns\<close>\<close>

text \<open>
  The loop of lines 57 to 65: \<open>todo\<close> iterations are left, \<open>k\<close> is the next lookup.
  An answer appends \<open>(end_time - start_time) * 1000\<close> to the list (\<^verbatim>\<open>times\<close> in the
  source, \<open>samples\<close> here); a raised exception
  leaves the function at once (\<open>None\<close> here), whatever was collected so far.
\<close>

fun sample_loop :: "network \<Rightarrow> nat \<Rightarrow> nat \<Rightarrow> real list \<Rightarrow> real list option \<times> nat" where
  "sample_loop net k 0 samples = (Some samples, k)"
| "sample_loop net k (Suc todo) samples =
     (case net k of
        Raised \<Rightarrow> (None, Suc k)
      | Resolved start_time end_time \<Rightarrow>
          sample_loop net (Suc k) todo (samples @ [(end_time - start_time) * 1000]))"

text \<open>
  \<^verbatim>\<open>range(num_measurements)\<close> is empty for a count of zero or less, hence
  \<open>nat num_measurements\<close> iterations.
\<close>

definition test_dns ::
  "quantile \<Rightarrow> network \<Rightarrow> nat \<Rightarrow> string \<Rightarrow> string \<Rightarrow> int \<Rightarrow> (py_error + dns_tuple) \<times> nat" where
  "test_dns ppf net k dns_server domain num_measurements =
     (case sample_loop net k (nat num_measurements) [] of
        (None, k') \<Rightarrow> (Inr Tuple3, k')
      | (Some samples, k') \<Rightarrow>
          (case aggregate ppf samples num_measurements of
             Inl e \<Rightarrow> (Inl e, k')
           | Inr s \<Rightarrow>
               (Inr (Tuple4 (avg_time s) (min_time s) (max_time s) (confidence_interval s)), k')))"

section \<open>The domain sweep: \<^verbatim>\<open>test_domains\<close>\<close>

text \<open>
  Line 84 unpacks the tuple \<^verbatim>\<open>test_dns\<close> returned into four names. Python
  raises ValueError (not enough values to unpack) when the tuple has three elements.
\<close>

fun unpack4 :: "dns_tuple \<Rightarrow> py_error + (real \<times> real \<times> real \<times> (npfloat \<times> npfloat))" where
  "unpack4 Tuple3 = Inl ValueError"
| "unpack4 (Tuple4 a mn mx ci) = Inr (a, mn, mx, ci)"

type_synonym domain_stat = "string \<times> real \<times> real \<times> real \<times> (npfloat \<times> npfloat)"

text \<open>
  The loop of lines 83 to 90 over the domains still to visit, with the two lists it
  appends to. After a successful unpacking \<open>avg_time\<close> is a float, so the test of line
  85 holds and both lists grow.
\<close>

fun domains_loop ::
  "quantile \<Rightarrow> network \<Rightarrow> nat \<Rightarrow> string \<Rightarrow> string list \<Rightarrow> int \<Rightarrow> real list \<Rightarrow> domain_stat list
     \<Rightarrow> (py_error + real list \<times> domain_stat list) \<times> nat" where
  "domains_loop ppf net k dns_server [] num overall_times domain_stats =
     (Inr (overall_times, domain_stats), k)"
| "domains_loop ppf net k dns_server (domain # rest) num overall_times domain_stats =
     (case test_dns ppf net k dns_server domain num of
        (Inl e, k') \<Rightarrow> (Inl e, k')
      | (Inr tup, k') \<Rightarrow>
          (case unpack4 tup of
             Inl e \<Rightarrow> (Inl e, k')
           | Inr (a, mn, mx, ci) \<Rightarrow>
               domains_loop ppf net k' dns_server rest num
                 (overall_times @ [a]) (domain_stats @ [(domain, a, mn, mx, ci)])))"

text \<open>
  The verbosity flag of \<^verbatim>\<open>test_domains\<close> only selects what is printed, and
  printing (the diagnostic of line 64, the summaries of lines 89 and 90, the progress
  bars) is not part of the model; the flag is therefore left out.
\<close>

type_synonym resolver_stat = "real \<times> real \<times> real \<times> (npfloat \<times> npfloat) \<times> domain_stat list"

definition test_domains ::
  "quantile \<Rightarrow> network \<Rightarrow> nat \<Rightarrow> string \<Rightarrow> string list \<Rightarrow> int \<Rightarrow> (py_error + resolver_stat) \<times> nat" where
  "test_domains ppf net k dns_server domains num_measurements =
     (case domains_loop ppf net k dns_server domains num_measurements [] [] of
        (Inl e, k') \<Rightarrow> (Inl e, k')
      | (Inr (overall_times, domain_stats), k') \<Rightarrow>
          (case aggregate ppf overall_times (int (length overall_times)) of
             Inl e \<Rightarrow> (Inl e, k')
           | Inr s \<Rightarrow>
               (Inr (avg_time s, min_time s, max_time s, confidence_interval s, domain_stats), k')))"

section \<open>Line 67 in binary64\<close>

text \<open>
  Whether the mean stays between the smallest and the largest sample depends on the
  rounding of line 67, so that line is also given with the arithmetic of Python's
  floats: IEEE 754 binary64, 53 significant bits, round to nearest, ties to even.
  \<open>rne\<close> rounds a real to the nearest integer, ties to even.
\<close>

definition rne :: "real \<Rightarrow> int" where
  "rne m =
     (let f = \<lfloor>m\<rfloor>; d = m - of_int f in
      if d < 1 / 2 then f else if 1 / 2 < d then f + 1 else if even f then f else f + 1)"

text \<open>
  The binary64 number nearest to \<open>x\<close>, for \<open>x\<close> in the normal range: the significand
  is scaled to 53 bits and rounded. Overflow and subnormal numbers are not modelled.
\<close>

definition round64 :: "real \<Rightarrow> real" where
  "round64 x =
     (if x = 0 then 0
      else let e = \<lfloor>log 2 \<bar>x\<bar>\<rfloor> - 52 in of_int (rne (x / 2 powr of_int e)) * 2 powr of_int e)"

text \<open>
  \<^verbatim>\<open>sum(times)\<close> adds the elements from left to right, starting from 0, each addition
  rounded; \<^verbatim>\<open>/ num_measurements\<close> is one rounded division, and raises
  ZeroDivisionError for a count of zero.
\<close>

fun sum64 :: "real \<Rightarrow> real list \<Rightarrow> real" where
  "sum64 acc [] = acc"
| "sum64 acc (x # xs) = sum64 (round64 (acc + x)) xs"

definition avg_time64 :: "real list \<Rightarrow> int \<Rightarrow> py_error + real" where
  "avg_time64 samples n =
     (if n = 0 then Inl ZeroDivisionError else Inr (round64 (sum64 0 samples / of_int n)))"

section \<open>Predicates and inputs used to state the properties\<close>

text \<open>
  Every domain of a sweep succeeds: each call of \<^verbatim>\<open>test_dns\<close>, made where the
  previous one left the network, returns the four statistics.
\<close>

fun sweep_succeeds :: "quantile \<Rightarrow> network \<Rightarrow> nat \<Rightarrow> string \<Rightarrow> string list \<Rightarrow> int \<Rightarrow> bool" where
  "sweep_succeeds ppf net k dns_server [] num = True"
| "sweep_succeeds ppf net k dns_server (domain # rest) num =
     (case test_dns ppf net k dns_server domain num of
        (Inr (Tuple4 a mn mx ci), k') \<Rightarrow> sweep_succeeds ppf net k' dns_server rest num
      | _ \<Rightarrow> False)"

text \<open>
  A stand-in for SciPy's quantile function, used to run the functions on concrete
  inputs: symmetric about zero, with the value the tables give for the 97.5 percent
  point at four degrees of freedom, 2.776, at every number of degrees of freedom.
\<close>

definition t_table :: quantile where
  "t_table q df = (if q < 1 / 2 then - (2776 / 1000) else 2776 / 1000)"

text \<open>
  Three networks: every lookup is answered in 10 ms; every lookup but the one with
  index \<open>j\<close> is; every lookup raises.
\<close>

definition steady_net :: network where
  "steady_net k = Resolved 0 (1 / 100)"

definition raises_at :: "nat \<Rightarrow> network" where
  "raises_at j k = (if k = j then Raised else Resolved 0 (1 / 100))"

definition dead_net :: network where
  "dead_net k = Raised"

section \<open>Facts about the library functions\<close>

lemma py_min_Min: "xs \<noteq> [] \<Longrightarrow> py_min xs = Inr (Min (set xs))"
  by (cases xs) (simp_all only: py_min.simps Min.set_eq_fold, simp_all)

lemma py_max_Max: "xs \<noteq> [] \<Longrightarrow> py_max xs = Inr (Max (set xs))"
  by (cases xs) (simp_all only: py_max.simps Max.set_eq_fold, simp_all)

lemma sum_list_bounds:
  fixes xs :: "real list"
  assumes "xs \<noteq> []"
  shows "Min (set xs) * real (length xs) \<le> sum_list xs" and "sum_list xs \<le> Max (set xs) * real (length xs)"
proof -
  have "\<And>x. x \<in> set xs \<Longrightarrow> Min (set xs) \<le> x" by simp
  then have "sum_list (map (\<lambda>_. Min (set xs)) xs) \<le> sum_list (map (\<lambda>x. x) xs)"
    by (intro sum_list_mono) auto
  then show "Min (set xs) * real (length xs) \<le> sum_list xs"
    by (simp add: sum_list_triv mult.commute)
  have "\<And>x. x \<in> set xs \<Longrightarrow> x \<le> Max (set xs)" by simp
  then have "sum_list (map (\<lambda>x. x) xs) \<le> sum_list (map (\<lambda>_. Max (set xs)) xs)"
    by (intro sum_list_mono) auto
  then show "sum_list xs \<le> Max (set xs) * real (length xs)"
    by (simp add: sum_list_triv mult.commute)
qed

lemma aggregate_ok:
  assumes "samples \<noteq> []" and "n \<noteq> 0"
  shows "aggregate ppf samples n =
     Inr \<lparr>avg_time = sum_list samples / real_of_int n,
          min_time = Min (set samples), max_time = Max (set samples),
          std_dev = np_std_ddof1 samples,
          std_err = np_div (np_std_ddof1 samples) (np_sqrt (real_of_int n)),
          confidence_interval =
            t_interval ppf (95 / 100) (real_of_int (n - 1)) (sum_list samples / real_of_int n)
              (np_div (np_std_ddof1 samples) (np_sqrt (real_of_int n)))\<rparr>"
  using assms by (simp add: aggregate_def py_min_Min py_max_Max Let_def)

lemma sample_loop_Some:
  "sample_loop net k n acc = (Some xs, k') \<Longrightarrow> length xs = length acc + n \<and> k' = k + n"
proof (induction n arbitrary: k acc)
  case 0
  then show ?case by simp
next
  case (Suc n)
  show ?case
  proof (cases "net k")
    case (Resolved start_time end_time)
    with Suc.prems
    have "sample_loop net (Suc k) n (acc @ [(end_time - start_time) * 1000]) = (Some xs, k')"
      by simp
    from Suc.IH [OF this] show ?thesis by simp
  next
    case Raised
    with Suc.prems show ?thesis by simp
  qed
qed

lemma sum_list_sq_pos:
  fixes xs :: "real list" and f :: "real \<Rightarrow> real"
  assumes "x \<in> set xs" and "f x \<noteq> 0"
  shows "0 < sum_list (map (\<lambda>y. (f y)\<^sup>2) xs)"
proof -
  have nn: "\<And>y. y \<in> set xs \<Longrightarrow> 0 \<le> (f y)\<^sup>2" by simp
  have "(f x)\<^sup>2 \<le> sum_list (map (\<lambda>y. (f y)\<^sup>2) xs)"
    using assms(1) by (intro member_le_sum_list) auto
  moreover have "0 < (f x)\<^sup>2" using assms(2) by simp
  ultimately show ?thesis by linarith
qed

lemma np_std_varied:
  assumes "x \<in> set samples" and "y \<in> set samples" and "x \<noteq> y"
  shows "\<exists>d. np_std_ddof1 samples = Fin d \<and> 0 < d"
proof -
  define m where "m = sum_list samples / real (length samples)"
  from assms have len: "2 \<le> length samples"
    by (cases samples; cases "tl samples") auto
  from assms(3) have "x - m \<noteq> 0 \<or> y - m \<noteq> 0" by auto
  then have "0 < sum_list (map (\<lambda>z. (z - m)\<^sup>2) samples)"
    using sum_list_sq_pos [of x samples "\<lambda>z. z - m"] sum_list_sq_pos [of y samples "\<lambda>z. z - m"] assms(1,2)
    by blast
  then have "0 < sqrt (sum_list (map (\<lambda>z. (z - m)\<^sup>2) samples) / real (length samples - 1))"
    using len by simp
  then show ?thesis
    using len by (simp add: np_std_ddof1_def Let_def m_def)
qed

lemma aggregate_Inr_D:
  assumes "aggregate ppf samples n = Inr s"
  shows "samples \<noteq> []" and "n \<noteq> 0"
    and "std_dev s = np_std_ddof1 samples"
    and "std_err s = np_div (np_std_ddof1 samples) (np_sqrt (real_of_int n))"
    and "avg_time s = sum_list samples / real_of_int n"
    and "confidence_interval s =
      t_interval ppf (95 / 100) (real_of_int (n - 1)) (sum_list samples / real_of_int n) (std_err s)"
proof -
  from assms show n0: "n \<noteq> 0"
    by (auto simp: aggregate_def split: if_splits)
  from assms show ne: "samples \<noteq> []"
    by (auto simp: aggregate_def split: if_splits)
  from assms aggregate_ok [OF ne n0, of ppf]
  show "std_dev s = np_std_ddof1 samples"
    and "std_err s = np_div (np_std_ddof1 samples) (np_sqrt (real_of_int n))"
    and "avg_time s = sum_list samples / real_of_int n"
    and "confidence_interval s =
      t_interval ppf (95 / 100) (real_of_int (n - 1)) (sum_list samples / real_of_int n) (std_err s)"
    by auto
qed

section \<open>Facts about binary64 rounding\<close>

text \<open>
  A number whose magnitude, scaled by \<open>2 ^ k\<close>, lies between \<open>2 ^ 52\<close> and \<open>2 ^ 53\<close>
  is rounded at that scale. The lemmas after it round the four numbers that arise
  when three samples of 0.1 are averaged.
\<close>

lemma round64_scaled:
  assumes lo: "2 ^ 52 \<le> \<bar>x\<bar> * 2 ^ k" and hi: "\<bar>x\<bar> * 2 ^ k < 2 ^ 53"
  shows "round64 x = of_int (rne (x * 2 ^ k)) / 2 ^ k"
proof -
  from lo have x0: "x \<noteq> 0" by auto
  then have pos: "0 < \<bar>x\<bar>" by simp
  have k: "(2::real) powr real k = 2 ^ k"
    by (simp add: powr_realpow)
  have p: "(2::real) powr (52 - real k) = 2 ^ 52 / 2 ^ k"
    unfolding powr_diff k using powr_realpow [of "2::real" 52] by simp
  have q: "(2::real) powr (53 - real k) = 2 ^ 53 / 2 ^ k"
    unfolding powr_diff k using powr_realpow [of "2::real" 53] by simp
  have "2 powr (52 - real k) \<le> \<bar>x\<bar>"
    unfolding p using lo by (simp add: pos_divide_le_eq)
  then have a: "52 - real k \<le> log 2 \<bar>x\<bar>"
    using pos by (simp add: le_log_iff)
  have "\<bar>x\<bar> < 2 powr (53 - real k)"
    unfolding q using hi by (simp add: pos_less_divide_eq)
  then have b: "log 2 \<bar>x\<bar> < 53 - real k"
    using pos by (simp add: log_less_iff)
  from a b have fl: "\<lfloor>log 2 \<bar>x\<bar>\<rfloor> = 52 - int k"
    by (simp add: floor_eq_iff)
  have e: "(2::real) powr (- real k) = 1 / 2 ^ k"
    unfolding powr_minus k by (simp add: divide_inverse)
  show ?thesis
    using x0 by (simp add: round64_def fl e)
qed

lemma round64_tenth: "round64 (1 / 10) = 3602879701896397 / 36028797018963968"
  using round64_scaled [of "1 / 10" 56] by (simp add: rne_def)

lemma sum64_first: "round64 (0 + 3602879701896397 / 36028797018963968) = 3602879701896397 / 36028797018963968"
  using round64_scaled [of "3602879701896397 / 36028797018963968" 56] by (simp add: rne_def)

lemma sum64_second: "round64 (3602879701896397 / 36028797018963968 + 3602879701896397 / 36028797018963968)
    = 3602879701896397 / 18014398509481984"
  using round64_scaled [of "3602879701896397 / 18014398509481984" 55] by (simp add: rne_def)

lemma sum64_third: "round64 (3602879701896397 / 18014398509481984 + 3602879701896397 / 36028797018963968)
    = 1351079888211149 / 4503599627370496"
  using round64_scaled [of "10808639105689191 / 36028797018963968" 54] by (simp add: rne_def)

lemma round64_third_of_sum: "round64 (1351079888211149 / 4503599627370496 / 3) = 7205759403792795 / 72057594037927936"
  using round64_scaled [of "1351079888211149 / 13510798882111488" 56] by (simp add: rne_def)

section \<open>Facts about the two loops\<close>

lemma sample_loop_raised:
  assumes "j < n" and "net (k + j) = Raised" and "\<forall>i<j. net (k + i) \<noteq> Raised"
  shows "sample_loop net k n acc = (None, Suc (k + j))"
  using assms
proof (induction n arbitrary: k j acc)
  case 0
  then show ?case by simp
next
  case (Suc n)
  show ?case
  proof (cases j)
    case 0
    with Suc.prems show ?thesis by simp
  next
    case (Suc j')
    with Suc.prems have "net k \<noteq> Raised" by force
    then obtain s e where here: "net k = Resolved s e" by (cases "net k") auto
    from Suc.prems \<open>j = Suc j'\<close> have "j' < n" "net (Suc k + j') = Raised"
      "\<forall>i<j'. net (Suc k + i) \<noteq> Raised"
      by auto
    from Suc.IH [OF this] here \<open>j = Suc j'\<close> show ?thesis by simp
  qed
qed

lemma domains_loop_append:
  "domains_loop ppf net k dns_server (pre @ post) num overall_times domain_stats =
     (case domains_loop ppf net k dns_server pre num overall_times domain_stats of
        (Inl e, k') \<Rightarrow> (Inl e, k')
      | (Inr (ot, ds), k') \<Rightarrow> domains_loop ppf net k' dns_server post num ot ds)"
  by (induction pre arbitrary: k overall_times domain_stats)
    (auto split: prod.splits sum.splits)

lemma domains_loop_succeeds:
  assumes "sweep_succeeds ppf net k dns_server domains num"
  shows "\<exists>ot' ds' k'.
      domains_loop ppf net k dns_server domains num overall_times domain_stats
        = (Inr (overall_times @ ot', domain_stats @ ds'), k')
    \<and> map fst ds' = domains \<and> map (fst \<circ> snd) ds' = ot'"
  using assms
proof (induction domains arbitrary: k overall_times domain_stats)
  case Nil
  then show ?case by simp
next
  case (Cons domain rest)
  from Cons.prems obtain a mn mx ci k1 where
    call: "test_dns ppf net k dns_server domain num = (Inr (Tuple4 a mn mx ci), k1)"
    and rest: "sweep_succeeds ppf net k1 dns_server rest num"
    by (auto split: prod.splits sum.splits dns_tuple.splits)
  from Cons.IH [OF rest, of "overall_times @ [a]" "domain_stats @ [(domain, a, mn, mx, ci)]"]
  obtain ot' ds' k' where
    step: "domains_loop ppf net k1 dns_server rest num (overall_times @ [a])
        (domain_stats @ [(domain, a, mn, mx, ci)])
      = (Inr ((overall_times @ [a]) @ ot', (domain_stats @ [(domain, a, mn, mx, ci)]) @ ds'), k')"
    and inv: "map fst ds' = rest" "map (fst \<circ> snd) ds' = ot'"
    by blast
  have "domains_loop ppf net k dns_server (domain # rest) num overall_times domain_stats
      = (Inr (overall_times @ (a # ot'), domain_stats @ ((domain, a, mn, mx, ci) # ds')), k')
    \<and> map fst ((domain, a, mn, mx, ci) # ds') = domain # rest
    \<and> map (fst \<circ> snd) ((domain, a, mn, mx, ci) # ds') = a # ot'"
    using call step inv by simp
  then show ?case
    by (intro exI [of _ "a # ot'"] exI [of _ "(domain, a, mn, mx, ci) # ds'"] exI [of _ k'])
qed

lemma domains_loop_returns:
  assumes "domains_loop ppf net k dns_server domains num overall_times domain_stats
      = (Inr (ot, ds), k')"
  shows "sweep_succeeds ppf net k dns_server domains num
    \<and> length ds = length domain_stats + length domains
    \<and> length ot = length overall_times + length domains"
  using assms
proof (induction domains arbitrary: k overall_times domain_stats)
  case Nil
  then show ?case by simp
next
  case (Cons domain rest)
  obtain r k1 where call: "test_dns ppf net k dns_server domain num = (r, k1)"
    by (cases "test_dns ppf net k dns_server domain num")
  with Cons.prems obtain a mn mx ci where r: "r = Inr (Tuple4 a mn mx ci)"
    by (cases r; cases "projr r") auto
  from Cons.prems call r
  have "domains_loop ppf net k1 dns_server rest num (overall_times @ [a])
      (domain_stats @ [(domain, a, mn, mx, ci)]) = (Inr (ot, ds), k')"
    by simp
  from Cons.IH [OF this] call r show ?case by simp
qed

lemma test_dns_steady:
  "test_dns t_table (raises_at 7) 0 ''8.8.8.8'' d 5 = (Inr (Tuple4 10 10 10 (NaN, NaN)), 5)"
  by (simp add: test_dns_def raises_at_def eval_nat_numeral aggregate_def np_std_ddof1_def
      np_sqrt_def t_interval_def Let_def)

section \<open>Facts about the scenario of five samples\<close>

lemma sqrt_50_bounds: "7071 / 1000 \<le> sqrt 50" "sqrt 50 \<le> 70711 / 10000"
  by (rule real_le_rsqrt, simp add: power2_eq_square) (rule real_le_lsqrt, simp_all add: power2_eq_square)

lemma sqrt_250_bounds: "1581 / 100 \<le> sqrt 250" "sqrt 250 \<le> 1582 / 100"
  by (rule real_le_rsqrt, simp add: power2_eq_square) (rule real_le_lsqrt, simp_all add: power2_eq_square)

lemma aggregate_10_to_50:
  "aggregate ppf [10, 20, 30, 40, 50] 5 =
     Inr \<lparr>avg_time = 30, min_time = 10, max_time = 50,
          std_dev = Fin (sqrt 250), std_err = Fin (sqrt 50),
          confidence_interval = (Fin (ppf (1 / 40) 4 * sqrt 50 + 30), Fin (ppf (39 / 40) 4 * sqrt 50 + 30))\<rparr>"
proof -
  have "sqrt 250 / sqrt 5 = sqrt 50"
    using real_sqrt_divide [of 250 5] by simp
  then show ?thesis
    by (simp add: aggregate_def np_std_ddof1_def np_sqrt_def t_interval_def Let_def)
qed

section \<open>The sampler and the sweep when a lookup fails\<close>

text \<open>
  Claim C1. A batch whose third of five lookups raises: \<^verbatim>\<open>test_dns\<close> returns the
  tuple \<^verbatim>\<open>None, None, None\<close> and computes no statistics, as the claim says. The
  sweep, however, does not leave the pair out: unpacking three values into the four
  names of line 84 raises ValueError, and \<^verbatim>\<open>test_domains\<close> ends there without a
  result. The test of line 85, written to skip such a pair, is never reached with
  \<^verbatim>\<open>None\<close>.
\<close>

theorem failed_batch_breaks_sweep:
  "test_dns t_table (raises_at 2) 0 ''8.8.8.8'' ''google.com'' 5 = (Inr Tuple3, 3)
   \<and> test_domains t_table (raises_at 2) 0 ''8.8.8.8'' [''google.com''] 5 = (Inl ValueError, 3)"
  by (simp add: test_domains_def test_dns_def raises_at_def eval_nat_numeral)

text \<open>
  Claim C2. When every batch of a resolver fails, the sweep never reaches the division
  of line 92: the first failed batch already raises ValueError at line 84. Two domains,
  every lookup raising.
\<close>

theorem all_failed_raises_value_error:
  "test_domains t_table dead_net 0 ''8.8.8.8'' [''google.com'', ''apple.com''] 5
     = (Inl ValueError, 1)"
  by (simp add: test_domains_def test_dns_def dead_net_def eval_nat_numeral)

text \<open>
  Claim C3. Three domains, the batch of the second failing at its third lookup. The
  claim expects statistics over the two successful means, with N = 2; the sweep raises
  ValueError at the second domain and computes no statistics at all.
\<close>

theorem failed_domain_not_excluded:
  "test_domains t_table (raises_at 7) 0 ''8.8.8.8'' [''google.com'', ''apple.com'', ''microsoft.com''] 5
     = (Inl ValueError, 8)"
proof -
  have "test_dns t_table (raises_at 7) 5 ''8.8.8.8'' ''apple.com'' 5 = (Inr Tuple3, 8)"
    by (simp add: test_dns_def raises_at_def eval_nat_numeral)
  then show ?thesis
    by (simp add: test_domains_def test_dns_steady)
qed

section \<open>Properties of the statistics\<close>

text \<open>
  Claim C4. On the samples 10, 20, 30, 40, 50 the block computes mean 30, minimum 10,
  maximum 50, sample standard deviation 15.81 and standard error 7.07 (both to two
  decimals), and, given that the library's quantiles at four degrees of freedom are
  -2.776 and 2.776 to three decimals, an interval within 0.01 of [10.37, 49.63].
\<close>

theorem scenario_10_to_50:
  assumes "- (2777 / 1000) \<le> ppf (25 / 1000) 4" and "ppf (25 / 1000) 4 \<le> - (2776 / 1000)"
    and "2776 / 1000 \<le> ppf (975 / 1000) 4" and "ppf (975 / 1000) 4 \<le> 2777 / 1000"
  shows "\<exists>s sd se lo hi. aggregate ppf [10, 20, 30, 40, 50] 5 = Inr s
     \<and> avg_time s = 30 \<and> min_time s = 10 \<and> max_time s = 50
     \<and> std_dev s = Fin sd \<and> 1581 / 100 \<le> sd \<and> sd \<le> 1582 / 100
     \<and> std_err s = Fin se \<and> 707 / 100 \<le> se \<and> se \<le> 708 / 100
     \<and> confidence_interval s = (Fin lo, Fin hi)
     \<and> 1036 / 100 < lo \<and> lo < 1038 / 100 \<and> 4962 / 100 < hi \<and> hi < 4964 / 100"
proof -
  define r where "r = sqrt 50"
  define p where "p = - ppf (1 / 40) 4"
  define q where "q = ppf (39 / 40) 4"
  have r: "7071 / 1000 \<le> r" "r \<le> 70711 / 10000"
    using sqrt_50_bounds by (simp_all add: r_def)
  have p: "2776 / 1000 \<le> p" "p \<le> 2777 / 1000"
    using assms(1,2) by (simp_all add: p_def)
  have q: "2776 / 1000 \<le> q" "q \<le> 2777 / 1000"
    using assms(3,4) by (simp_all add: q_def)
  have pr_hi: "p * r \<le> 2777 / 1000 * (70711 / 10000)"
    using p r by (intro mult_mono) auto
  have pr_lo: "2776 / 1000 * (7071 / 1000) \<le> p * r"
    using p r by (intro mult_mono) auto
  have qr_hi: "q * r \<le> 2777 / 1000 * (70711 / 10000)"
    using q r by (intro mult_mono) auto
  have qr_lo: "2776 / 1000 * (7071 / 1000) \<le> q * r"
    using q r by (intro mult_mono) auto
  have lo: "1036 / 100 < - p * r + 30" "- p * r + 30 < 1038 / 100"
    using pr_hi pr_lo by simp_all
  have hi: "4962 / 100 < q * r + 30" "q * r + 30 < 4964 / 100"
    using qr_hi qr_lo by simp_all
  have sd: "1581 / 100 \<le> sqrt 250" "sqrt 250 \<le> 1582 / 100"
    by (rule sqrt_250_bounds)+
  have se: "707 / 100 \<le> r" "r \<le> 708 / 100"
    using r by simp_all
  show ?thesis
    using lo hi sd se by (simp add: aggregate_10_to_50 p_def q_def r_def)
qed

theorem scenario_10_to_50_witness:
  "\<exists>s sd se lo hi. aggregate t_table [10, 20, 30, 40, 50] 5 = Inr s
     \<and> avg_time s = 30 \<and> min_time s = 10 \<and> max_time s = 50
     \<and> std_dev s = Fin sd \<and> 1581 / 100 \<le> sd \<and> sd \<le> 1582 / 100
     \<and> std_err s = Fin se \<and> 707 / 100 \<le> se \<and> se \<le> 708 / 100
     \<and> confidence_interval s = (Fin lo, Fin hi)
     \<and> 1036 / 100 < lo \<and> lo < 1038 / 100 \<and> 4962 / 100 < hi \<and> hi < 4964 / 100"
  by (rule scenario_10_to_50) (simp_all add: t_table_def)

text \<open>
  Claim C5, amended. For every sequence of two or more samples (positive or not), the
  statistics block returns, and its arithmetic mean lies between the minimum and the
  maximum of the samples up to the rounding of floating-point arithmetic: in exact
  arithmetic, as proved here, it lies between them.
\<close>

theorem mean_within_min_max:
  assumes "2 \<le> length samples"
  shows "\<exists>s. aggregate ppf samples (int (length samples)) = Inr s
           \<and> py_min samples = Inr (min_time s) \<and> py_max samples = Inr (max_time s)
           \<and> avg_time s = sum_list samples / real (length samples)
           \<and> min_time s \<le> avg_time s \<and> avg_time s \<le> max_time s"
proof -
  from assms have ne: "samples \<noteq> []" and n0: "int (length samples) \<noteq> 0" and pos: "0 < real (length samples)"
    by auto
  have lo: "Min (set samples) \<le> sum_list samples / real (length samples)"
    using sum_list_bounds(1) [OF ne] pos by (simp add: pos_le_divide_eq)
  have hi: "sum_list samples / real (length samples) \<le> Max (set samples)"
    using sum_list_bounds(2) [OF ne] pos by (simp add: pos_divide_le_eq)
  show ?thesis
    using lo hi by (simp add: aggregate_ok [OF ne n0] py_min_Min [OF ne] py_max_Max [OF ne])
qed

theorem mean_within_min_max_witness:
  "\<exists>s. aggregate t_table [10, 20, 30] 3 = Inr s
           \<and> py_min [10, 20, 30] = Inr (min_time s) \<and> py_max [10, 20, 30] = Inr (max_time s)
           \<and> avg_time s = 20
           \<and> min_time s \<le> avg_time s \<and> avg_time s \<le> max_time s"
  using mean_within_min_max [of "[10, 20, 30]" t_table] by simp

text \<open>
  The claim as stated, with no tolerance, fails in binary64 on three samples of 0.1
  (the float \<open>3602879701896397 / 2 ^ 55\<close>): their sum rounds up to
  0.30000000000000004, and a third of that rounds to 0.10000000000000002, one unit in
  the last place above the largest sample.
\<close>

theorem mean_above_max_counterexample:
  "round64 (1 / 10) = 3602879701896397 / 36028797018963968
   \<and> py_max [3602879701896397 / 36028797018963968, 3602879701896397 / 36028797018963968,
        3602879701896397 / 36028797018963968] = Inr (3602879701896397 / 36028797018963968)
   \<and> avg_time64 [3602879701896397 / 36028797018963968, 3602879701896397 / 36028797018963968,
        3602879701896397 / 36028797018963968] 3 = Inr (7205759403792795 / 72057594037927936)
   \<and> (3602879701896397 / 36028797018963968 :: real) < 7205759403792795 / 72057594037927936"
proof -
  have "sum64 0 [3602879701896397 / 36028797018963968, 3602879701896397 / 36028797018963968,
        3602879701896397 / 36028797018963968] = 1351079888211149 / 4503599627370496"
    by (simp only: sum64.simps sum64_first sum64_second sum64_third)
  then have "avg_time64 [3602879701896397 / 36028797018963968, 3602879701896397 / 36028797018963968,
        3602879701896397 / 36028797018963968] 3 = Inr (7205759403792795 / 72057594037927936)"
    using round64_third_of_sum by (simp only: avg_time64_def) simp
  then show ?thesis
    by (simp add: round64_tenth)
qed

text \<open>
  Claim C6, amended. For samples that are not all identical (so there are at least two,
  and the standard deviation is positive), and a quantile function whose 2.5 and 97.5
  percent points are opposite, as those of Student's t are, the interval is a pair of
  numbers and the mean is its midpoint: mean - low = high - mean.
\<close>

theorem interval_symmetric:
  assumes "x \<in> set samples" and "y \<in> set samples" and "x \<noteq> y"
    and "ppf (25 / 1000) (real (length samples) - 1) = - ppf (975 / 1000) (real (length samples) - 1)"
  shows "\<exists>s lo hi. aggregate ppf samples (int (length samples)) = Inr s
     \<and> confidence_interval s = (Fin lo, Fin hi)
     \<and> avg_time s - lo = hi - avg_time s"
proof -
  from assms(1-3) have len: "2 \<le> length samples"
    by (cases samples; cases "tl samples") auto
  then have ne: "samples \<noteq> []" and n0: "int (length samples) \<noteq> 0" by auto
  from np_std_varied [OF assms(1-3)] obtain d where d: "np_std_ddof1 samples = Fin d" "0 < d"
    by blast
  from ne have "0 < sqrt (real (length samples))" by simp
  with d(2) have "0 < d / sqrt (real (length samples))" by (rule divide_pos_pos)
  then show ?thesis
    using len ne assms(4) d
    by (simp add: aggregate_ok [OF ne n0] np_sqrt_def t_interval_def Let_def)
qed

theorem interval_symmetric_witness:
  "\<exists>s lo hi. aggregate t_table [10, 20, 30] 3 = Inr s
     \<and> confidence_interval s = (Fin lo, Fin hi)
     \<and> avg_time s - lo = hi - avg_time s"
  using interval_symmetric [of 10 "[10, 20, 30]" 20 t_table] by (simp add: t_table_def)

text \<open>
  The claim as stated, for every sequence of two or more samples, fails on identical
  samples: two lookups of 10 ms each give the interval (nan, nan), and nan equals
  nothing, within any tolerance.
\<close>

theorem interval_symmetric_counterexample:
  "test_dns t_table steady_net 0 ''8.8.8.8'' ''google.com'' 2 = (Inr (Tuple4 10 10 10 (NaN, NaN)), 2)"
  by (simp add: test_dns_def steady_net_def eval_nat_numeral aggregate_def np_std_ddof1_def
      np_sqrt_def t_interval_def Let_def)

text \<open>
  Claim C7, amended. Whenever the sample standard deviation of two or more samples is
  computed as exactly zero (as it is for the identical samples 25, 25, 25), the
  standard error is zero and the interval is not the point [mean, mean] but
  (nan, nan): SciPy rejects a scale that is not positive.
\<close>

theorem zero_deviation_interval_nan:
  assumes "aggregate ppf samples (int (length samples)) = Inr s" and "std_dev s = Fin 0"
  shows "std_err s = Fin 0 \<and> confidence_interval s = (NaN, NaN)"
proof -
  note d = aggregate_Inr_D [OF assms(1)]
  from d(3) assms(2) have sd: "np_std_ddof1 samples = Fin 0" by simp
  have se: "std_err s = Fin 0"
    using d(1) by (simp add: d(4) sd np_sqrt_def)
  then show ?thesis
    by (simp add: d(6) t_interval_def)
qed

theorem zero_deviation_interval_nan_witness:
  "\<exists>s. aggregate t_table [7, 7, 7, 7] 4 = Inr s \<and> std_dev s = Fin 0
     \<and> std_err s = Fin 0 \<and> confidence_interval s = (NaN, NaN)"
proof -
  obtain s where s: "aggregate t_table [7, 7, 7, 7] (int (length [7, 7, 7, 7 :: real])) = Inr s"
    using aggregate_ok [of "[7, 7, 7, 7]" 4 t_table] by simp
  have sd: "std_dev s = Fin 0"
    using aggregate_Inr_D(3) [OF s] by (simp add: np_std_ddof1_def)
  from zero_deviation_interval_nan [OF s sd] s sd show ?thesis by simp
qed

text \<open>
  The claim as stated fails on the samples 25, 25, 25: the interval is (nan, nan), not
  (25, 25).
\<close>

theorem constant_samples_counterexample:
  "aggregate t_table [25, 25, 25] 3 =
     Inr \<lparr>avg_time = 25, min_time = 25, max_time = 25, std_dev = Fin 0, std_err = Fin 0,
          confidence_interval = (NaN, NaN)\<rparr>
   \<and> (NaN, NaN) \<noteq> (Fin 25, Fin 25)"
  by (simp add: aggregate_def np_std_ddof1_def np_sqrt_def t_interval_def Let_def)

text \<open>
  Claim C8, amended. Two sample sequences with the same positive standard deviation
  \<open>d\<close>: the longer one has the strictly smaller standard error, \<open>d / sqrt N\<close>. Its
  interval is strictly narrower too, provided the spread of the library's two quantiles
  is positive and does not grow with the degrees of freedom (as is the case for
  Student's t).
\<close>

theorem std_err_decreases:
  assumes "aggregate ppf xs (int (length xs)) = Inr sx"
    and "aggregate ppf ys (int (length ys)) = Inr sy"
    and "std_dev sx = Fin d" and "std_dev sy = Fin d" and "0 < d"
    and "length xs < length ys"
  shows "\<exists>ex ey. std_err sx = Fin ex \<and> std_err sy = Fin ey
     \<and> ex = d / sqrt (real (length xs)) \<and> ey = d / sqrt (real (length ys))
     \<and> ey < ex
     \<and> (0 < ppf (975 / 1000) (real (length ys) - 1) - ppf (25 / 1000) (real (length ys) - 1)
        \<and> ppf (975 / 1000) (real (length ys) - 1) - ppf (25 / 1000) (real (length ys) - 1)
            \<le> ppf (975 / 1000) (real (length xs) - 1) - ppf (25 / 1000) (real (length xs) - 1)
        \<longrightarrow> (\<exists>lx hx ly hy. confidence_interval sx = (Fin lx, Fin hx)
              \<and> confidence_interval sy = (Fin ly, Fin hy)
              \<and> hy - ly < hx - lx))"
proof -
  define nx where "nx = real (length xs)"
  define ny where "ny = real (length ys)"
  define ex where "ex = d / sqrt nx"
  define ey where "ey = d / sqrt ny"
  note dx = aggregate_Inr_D [OF assms(1)]
  note dy = aggregate_Inr_D [OF assms(2)]
  from dx(3) assms(3) have lx: "2 \<le> length xs"
    by (auto simp: np_std_ddof1_def Let_def split: if_splits)
  with assms(6) have ly: "2 \<le> length ys" by simp
  from lx ly have pos: "0 < nx" "0 < ny" "1 < nx" "1 < ny" by (auto simp: nx_def ny_def)
  from assms(6) have "nx < ny" by (simp add: nx_def ny_def)
  with pos have "sqrt nx < sqrt ny" "0 < sqrt nx" by simp_all
  with assms(5) have lt: "ey < ex" "0 < ey"
    by (simp_all add: ex_def ey_def frac_less2)
  from dx(3) assms(3) have sdx: "np_std_ddof1 xs = Fin d" by simp
  from dy(3) assms(4) have sdy: "np_std_ddof1 ys = Fin d" by simp
  have sex: "std_err sx = Fin ex"
    using dx(1) by (simp add: dx(4) sdx np_sqrt_def ex_def nx_def)
  have sey: "std_err sy = Fin ey"
    using dy(1) by (simp add: dy(4) sdy np_sqrt_def ey_def ny_def)
  define wx where "wx = ppf (975 / 1000) (nx - 1) - ppf (25 / 1000) (nx - 1)"
  define wy where "wy = ppf (975 / 1000) (ny - 1) - ppf (25 / 1000) (ny - 1)"
  have cix: "confidence_interval sx =
      (Fin (ppf (25 / 1000) (nx - 1) * ex + avg_time sx), Fin (ppf (975 / 1000) (nx - 1) * ex + avg_time sx))"
    using dx(5,6) sex lt pos by (simp add: t_interval_def nx_def)
  have ciy: "confidence_interval sy =
      (Fin (ppf (25 / 1000) (ny - 1) * ey + avg_time sy), Fin (ppf (975 / 1000) (ny - 1) * ey + avg_time sy))"
    using dy(5,6) sey lt pos by (simp add: t_interval_def ny_def)
  have width: "wy * ey < wx * ex" if "0 < wy" "wy \<le> wx"
  proof -
    from that lt have "wy * ey < wy * ex" by simp
    also from that lt have "wy * ex \<le> wx * ex" by (intro mult_right_mono) auto
    finally show ?thesis .
  qed
  have "0 < wy \<and> wy \<le> wx \<longrightarrow> (\<exists>lx hx ly hy. confidence_interval sx = (Fin lx, Fin hx)
              \<and> confidence_interval sy = (Fin ly, Fin hy) \<and> hy - ly < hx - lx)"
  proof
    assume "0 < wy \<and> wy \<le> wx"
    then have "wy * ey < wx * ex" using width by blast
    then have "(ppf (975 / 1000) (ny - 1) * ey + avg_time sy) - (ppf (25 / 1000) (ny - 1) * ey + avg_time sy)
        < (ppf (975 / 1000) (nx - 1) * ex + avg_time sx) - (ppf (25 / 1000) (nx - 1) * ex + avg_time sx)"
      by (simp add: wx_def wy_def algebra_simps)
    with cix ciy show "\<exists>lx hx ly hy. confidence_interval sx = (Fin lx, Fin hx)
              \<and> confidence_interval sy = (Fin ly, Fin hy) \<and> hy - ly < hx - lx"
      by blast
  qed
  with sex sey lt(1) show ?thesis
    unfolding wx_def wy_def ex_def ey_def nx_def ny_def by blast
qed

theorem std_err_decreases_witness:
  "\<exists>sx sy ex ey lx hx ly hy.
       aggregate t_table [0, 1] 2 = Inr sx \<and> aggregate t_table [0, 1, 1, 1, 2] 5 = Inr sy
     \<and> std_dev sx = std_dev sy
     \<and> std_err sx = Fin ex \<and> std_err sy = Fin ey \<and> ey < ex
     \<and> confidence_interval sx = (Fin lx, Fin hx)
     \<and> confidence_interval sy = (Fin ly, Fin hy)
     \<and> hy - ly < hx - lx"
proof -
  obtain sx where sx: "aggregate t_table [0, 1] (int (length [0, 1 :: real])) = Inr sx"
    using aggregate_ok [of "[0, 1]" 2 t_table] by simp
  obtain sy where sy: "aggregate t_table [0, 1, 1, 1, 2] (int (length [0, 1, 1, 1, 2 :: real])) = Inr sy"
    using aggregate_ok [of "[0, 1, 1, 1, 2]" 5 t_table] by simp
  have dx: "std_dev sx = Fin (sqrt (1 / 2))"
    using aggregate_Inr_D(3) [OF sx] by (simp add: np_std_ddof1_def power2_eq_square)
  have dy: "std_dev sy = Fin (sqrt (1 / 2))"
    using aggregate_Inr_D(3) [OF sy] by (simp add: np_std_ddof1_def power2_eq_square)
  have pos: "0 < sqrt (1 / 2 :: real)" by simp
  from std_err_decreases [OF sx sy dx dy pos] sx sy dx dy
  show ?thesis
    by (simp add: t_table_def)
qed

text \<open>
  The claim as stated has no condition on the standard deviation and fails when it is
  zero: with the samples 5, 5 and 5, 5, 5 the standard error is zero for N = 2 and for
  N = 3, so it does not strictly decrease (and neither sequence has an interval).
\<close>

theorem std_err_decreases_counterexample:
  "aggregate t_table [5, 5] 2 =
     Inr \<lparr>avg_time = 5, min_time = 5, max_time = 5, std_dev = Fin 0, std_err = Fin 0,
          confidence_interval = (NaN, NaN)\<rparr>
   \<and> aggregate t_table [5, 5, 5] 3 =
     Inr \<lparr>avg_time = 5, min_time = 5, max_time = 5, std_dev = Fin 0, std_err = Fin 0,
          confidence_interval = (NaN, NaN)\<rparr>"
  by (simp add: aggregate_def np_std_ddof1_def np_sqrt_def t_interval_def Let_def)

text \<open>
  Claim C10. There are strictly positive samples whose interval starts below the sample
  minimum and below zero: for the samples 1 and 3 the standard error is 1 and the mean
  is 2, so with one degree of freedom any lower quantile below -2 (the tables give
  -12.706) puts the lower bound below zero.
\<close>

theorem interval_below_minimum:
  assumes "ppf (25 / 1000) 1 < - 2"
  shows "\<exists>s lo hi. aggregate ppf [1, 3] 2 = Inr s
     \<and> min_time s = 1
     \<and> confidence_interval s = (Fin lo, Fin hi)
     \<and> lo < min_time s \<and> lo < 0"
proof -
  have "sqrt 2 / sqrt 2 = (1::real)" by simp
  then show ?thesis
    using assms
    by (simp add: aggregate_def np_std_ddof1_def np_sqrt_def t_interval_def Let_def)
qed

theorem interval_below_minimum_witness:
  "\<exists>s lo hi. aggregate t_table [1, 3] 2 = Inr s
     \<and> min_time s = 1
     \<and> confidence_interval s = (Fin lo, Fin hi)
     \<and> lo < min_time s \<and> lo < 0"
  by (rule interval_below_minimum) (simp add: t_table_def)

section \<open>The sweep when every domain succeeds\<close>

text \<open>
  Claim C9, amended. For every non-empty list of domains that all succeed, the loop
  ends with one entry per domain, in the order of the input list; the mean recorded in
  each entry is the one appended to \<^verbatim>\<open>overall_times\<close>, so the two lists have the
  same length; and \<^verbatim>\<open>test_domains\<close> returns these entries together with a mean
  that is the arithmetic mean of the recorded means.
\<close>

theorem sweep_keeps_order:
  assumes "sweep_succeeds ppf net k dns_server domains num" and "domains \<noteq> []"
  shows "\<exists>overall_times domain_stats k' overall_min overall_max overall_ci.
      domains_loop ppf net k dns_server domains num [] [] = (Inr (overall_times, domain_stats), k')
    \<and> map fst domain_stats = domains
    \<and> map (fst \<circ> snd) domain_stats = overall_times
    \<and> length domain_stats = length overall_times
    \<and> test_domains ppf net k dns_server domains num
        = (Inr (sum_list (map (fst \<circ> snd) domain_stats) / real (length domain_stats),
                overall_min, overall_max, overall_ci, domain_stats), k')"
proof -
  from domains_loop_succeeds [OF assms(1), of "[]" "[]"]
  obtain ot ds k' where
    loop: "domains_loop ppf net k dns_server domains num [] [] = (Inr (ot, ds), k')"
    and inv: "map fst ds = domains" "map (fst \<circ> snd) ds = ot"
    by auto
  from inv have len: "length ds = length ot" "length ot = length domains"
    by (metis length_map)+
  with assms(2) have ne: "ot \<noteq> []" and n0: "int (length ot) \<noteq> 0" by auto
  have "test_domains ppf net k dns_server domains num
      = (Inr (sum_list ot / real (length ot), Min (set ot), Max (set ot),
              t_interval ppf (95 / 100) (real_of_int (int (length ot) - 1))
                (sum_list ot / real_of_int (int (length ot)))
                (np_div (np_std_ddof1 ot) (np_sqrt (real_of_int (int (length ot))))), ds), k')"
    by (simp add: test_domains_def loop aggregate_ok [OF ne n0])
  with loop inv len show ?thesis
    by auto
qed

theorem sweep_keeps_order_witness:
  "\<exists>overall_times domain_stats k' overall_min overall_max overall_ci.
      domains_loop t_table steady_net 0 ''8.8.8.8'' [''google.com'', ''apple.com''] 2 [] []
        = (Inr (overall_times, domain_stats), k')
    \<and> map fst domain_stats = [''google.com'', ''apple.com'']
    \<and> map (fst \<circ> snd) domain_stats = overall_times
    \<and> length domain_stats = length overall_times
    \<and> test_domains t_table steady_net 0 ''8.8.8.8'' [''google.com'', ''apple.com''] 2
        = (Inr (sum_list (map (fst \<circ> snd) domain_stats) / real (length domain_stats),
                overall_min, overall_max, overall_ci, domain_stats), k')"
proof -
  have call: "test_dns t_table steady_net k ''8.8.8.8'' d 2 = (Inr (Tuple4 10 10 10 (NaN, NaN)), Suc (Suc k))" for k d
    by (simp add: test_dns_def steady_net_def eval_nat_numeral aggregate_def np_std_ddof1_def
        np_sqrt_def t_interval_def Let_def)
  have "sweep_succeeds t_table steady_net 0 ''8.8.8.8'' [''google.com'', ''apple.com''] 2"
    by (simp add: call)
  from sweep_keeps_order [OF this] show ?thesis by simp
qed

text \<open>
  The claim as stated covers the empty list, in which every domain succeeds: there
  \<^verbatim>\<open>test_domains\<close> returns nothing, the division of line 92 raises.
\<close>

theorem sweep_empty_counterexample:
  "test_domains t_table steady_net 0 ''8.8.8.8'' [] 2 = (Inl ZeroDivisionError, 0)"
  by (simp add: test_domains_def aggregate_def)

section \<open>Further properties\<close>

text \<open>
  When all lookups of a batch of one or more are answered, \<^verbatim>\<open>test_dns\<close> returns
  what the statistics block computes from the collected samples, with N their number.
\<close>

theorem test_dns_answered:
  assumes loop: "sample_loop net k (nat num) [] = (Some samples, k')" and num: "1 \<le> num"
  shows "\<exists>s. aggregate ppf samples (int (length samples)) = Inr s
     \<and> int (length samples) = num
     \<and> test_dns ppf net k dns_server domain num
          = (Inr (Tuple4 (avg_time s) (min_time s) (max_time s) (confidence_interval s)), k')"
proof -
  from sample_loop_Some [OF loop] num have len: "int (length samples) = num" by simp
  with num have ne: "samples \<noteq> []" and n0: "int (length samples) \<noteq> 0" by auto
  have "test_dns ppf net k dns_server domain (int (length samples))
      = (case aggregate ppf samples (int (length samples)) of
           Inl e \<Rightarrow> (Inl e, k')
         | Inr s \<Rightarrow>
             (Inr (Tuple4 (avg_time s) (min_time s) (max_time s) (confidence_interval s)), k'))"
    using loop by (simp add: test_dns_def len [symmetric])
  moreover obtain s where "aggregate ppf samples (int (length samples)) = Inr s"
    using aggregate_ok [OF ne n0, of ppf] by blast
  ultimately have "aggregate ppf samples (int (length samples)) = Inr s
     \<and> int (length samples) = num
     \<and> test_dns ppf net k dns_server domain (int (length samples))
          = (Inr (Tuple4 (avg_time s) (min_time s) (max_time s) (confidence_interval s)), k')"
    using len by simp
  then show ?thesis
    unfolding len by blast
qed

theorem test_dns_answered_witness:
  "\<exists>s. aggregate t_table [10, 10, 10] (int (length [10, 10, 10 :: real])) = Inr s
     \<and> int (length [10, 10, 10 :: real]) = 3
     \<and> test_dns t_table steady_net 4 ''9.9.9.9'' ''nasa.gov'' 3
          = (Inr (Tuple4 (avg_time s) (min_time s) (max_time s) (confidence_interval s)), 7)"
proof -
  have "sample_loop steady_net 4 (nat 3) [] = (Some [10, 10, 10], 7)"
    by (simp add: steady_net_def eval_nat_numeral)
  from test_dns_answered [OF this] show ?thesis by simp
qed

text \<open>
  The sentinel in general: when the first lookup to raise is the \<open>j\<close>-th of a batch,
  \<^verbatim>\<open>test_dns\<close> returns \<^verbatim>\<open>None, None, None\<close> after \<open>j + 1\<close> lookups.
\<close>

theorem test_dns_no_data:
  assumes "int j < num" and "net (k + j) = Raised" and "\<forall>i<j. net (k + i) \<noteq> Raised"
  shows "test_dns ppf net k dns_server domain num = (Inr Tuple3, Suc (k + j))"
proof -
  from assms(1) have "j < nat num" by simp
  from sample_loop_raised [OF this assms(2,3)] show ?thesis
    by (simp add: test_dns_def)
qed

theorem test_dns_no_data_witness:
  "test_dns t_table (raises_at 2) 0 ''1.1.1.1'' ''orf.at'' 5 = (Inr Tuple3, 3)"
  using test_dns_no_data [of 2 5 "raises_at 2" 0 t_table "''1.1.1.1''" "''orf.at''"]
  by (simp add: raises_at_def)

text \<open>
  The unpacking error in general: whatever the domains before and after it, a domain
  whose batch fails ends \<^verbatim>\<open>test_domains\<close> with ValueError.
\<close>

theorem failed_batch_raises:
  assumes "domains_loop ppf net k dns_server pre num [] [] = (Inr (overall_times, domain_stats), k1)"
    and "test_dns ppf net k1 dns_server domain num = (Inr Tuple3, k2)"
  shows "test_domains ppf net k dns_server (pre @ domain # rest) num = (Inl ValueError, k2)"
  using assms by (simp add: test_domains_def domains_loop_append)

theorem failed_batch_raises_witness:
  "test_domains t_table (raises_at 7) 0 ''8.8.8.8'' ([''google.com''] @ ''apple.com'' # [''orf.at'']) 5
     = (Inl ValueError, 8)"
proof -
  have "domains_loop t_table (raises_at 7) 0 ''8.8.8.8'' [''google.com''] 5 [] []
      = (Inr ([10], [(''google.com'', 10, 10, 10, (NaN, NaN))]), 5)"
    by (simp add: test_dns_steady)
  moreover have "test_dns t_table (raises_at 7) 5 ''8.8.8.8'' ''apple.com'' 5 = (Inr Tuple3, 8)"
    by (simp add: test_dns_def raises_at_def eval_nat_numeral)
  ultimately show ?thesis
    by (rule failed_batch_raises)
qed

text \<open>
  An empty list of domains reaches line 92 with no means and raises ZeroDivisionError.
\<close>

theorem empty_sweep_divides_by_zero:
  "test_domains ppf net k dns_server [] num = (Inl ZeroDivisionError, k)"
  by (simp add: test_domains_def aggregate_def)

text \<open>
  Whenever \<^verbatim>\<open>test_domains\<close> returns, every domain of the list has succeeded and
  has its entry: the number of means that enter the resolver-level statistics is the
  length of the configured list.
\<close>

theorem returned_sweep_is_complete:
  assumes "test_domains ppf net k dns_server domains num
      = (Inr (overall_avg, overall_min, overall_max, overall_ci, domain_stats), k')"
  shows "sweep_succeeds ppf net k dns_server domains num
    \<and> length domain_stats = length domains"
proof -
  obtain r k1 where loop: "domains_loop ppf net k dns_server domains num [] [] = (r, k1)"
    by (cases "domains_loop ppf net k dns_server domains num [] []")
  with assms obtain ot ds where r: "r = Inr (ot, ds)"
    by (cases r) (auto simp: test_domains_def)
  from assms loop r have "ds = domain_stats"
    by (auto simp: test_domains_def split: sum.splits)
  with domains_loop_returns [of ppf net k dns_server domains num "[]" "[]" ot ds k1] loop r
  show ?thesis by simp
qed

theorem returned_sweep_is_complete_witness:
  "sweep_succeeds t_table steady_net 0 ''8.8.8.8'' [''orf.at'', ''bbc.com''] 2
    \<and> length [(''orf.at'', 10 :: real, 10 :: real, 10 :: real, (NaN, NaN)),
               (''bbc.com'', 10, 10, 10, (NaN, NaN))] = length [''orf.at'', ''bbc.com'']"
proof -
  have call: "test_dns t_table steady_net k ''8.8.8.8'' d 2 = (Inr (Tuple4 10 10 10 (NaN, NaN)), Suc (Suc k))" for k d
    by (simp add: test_dns_def steady_net_def eval_nat_numeral aggregate_def np_std_ddof1_def
        np_sqrt_def t_interval_def Let_def)
  have "test_domains t_table steady_net 0 ''8.8.8.8'' [''orf.at'', ''bbc.com''] 2
      = (Inr (10, 10, 10, (NaN, NaN),
          [(''orf.at'', 10, 10, 10, (NaN, NaN)), (''bbc.com'', 10, 10, 10, (NaN, NaN))]), 4)"
    by (simp add: test_domains_def call aggregate_def np_std_ddof1_def np_sqrt_def
        t_interval_def Let_def)
  from returned_sweep_is_complete [OF this] show ?thesis .
qed

end
